theory Spec2Isabelle
  imports Complex_Main "HOL-Library.Log_Nat" "HOL-Library.Word"
begin

unbundle bit_operations_syntax

section \<open>Numbers of the program\<close>

text \<open>
  The program is Python 2 code (\<open>from __future__ import print_function\<close>, and a
  \<open>str\<close> handed to \<open>sock.sendto\<close> and \<open>ser.write\<close>). Its coordinates are
  Python floats, that is IEEE 754 binary64 values. A finite binary64 value is a
  rational number, so a float is modelled as a \<open>rat\<close> and every float operation of
  the source is the exact operation followed by the rounding \<open>fl\<close> to the nearest
  binary64 value, ties to even. No operation of \<open>gen_tll\<close> can overflow: the
  products are taken of a fractional part, which lies below 1.
\<close>

definition ilog2 :: "rat \<Rightarrow> int" where
  \<comment> \<open>the binary exponent of a positive rational: \<open>2 powi e \<le> x < 2 powi (e + 1)\<close>\<close>
  "ilog2 x =
     (let (a, b) = quotient_of x;
          k = bitlen a - bitlen b
      in if 2 powi k \<le> x then k else k - 1)"

definition rne :: "rat \<Rightarrow> int" where
  \<comment> \<open>round to the nearest integer, ties to the even one\<close>
  "rne x =
     (let f = \<lfloor>x\<rfloor>; d = x - of_int f
      in if d < 1 / 2 then f
         else if 1 / 2 < d then f + 1
         else if even f then f else f + 1)"

definition quantum :: "rat \<Rightarrow> rat" where
  \<comment> \<open>the spacing of binary64 values around \<open>x\<close>: 53 significant bits, and
      \<open>2 powi (-1074)\<close> in the subnormal range\<close>
  "quantum x = 2 powi (max (ilog2 \<bar>x\<bar> - 52) (- 1074))"

definition fl :: "rat \<Rightarrow> rat" where
  "fl x = (if x = 0 then 0 else of_int (rne (x / quantum x)) * quantum x)"

definition py_floor :: "rat \<Rightarrow> rat" where
  \<comment> \<open>\<open>math.floor\<close> of Python 2: the result is a float\<close>
  "py_floor x = of_int \<lfloor>x\<rfloor>"

definition py_round :: "rat \<Rightarrow> rat" where
  \<comment> \<open>\<open>round\<close> of Python 2 with one argument: to the nearest integer, ties away
      from zero; the result is a float\<close>
  "py_round x = (if 0 \<le> x then of_int \<lfloor>x + 1 / 2\<rfloor> else of_int \<lceil>x - 1 / 2\<rceil>)"

definition py_int :: "rat \<Rightarrow> int" where
  \<comment> \<open>the conversion \<open>%d\<close> applies to a float argument: truncation towards zero\<close>
  "py_int x = (if 0 \<le> x then \<lfloor>x\<rfloor> else \<lceil>x\<rceil>)"

section \<open>String formatting\<close>

definition digit_char :: "int \<Rightarrow> char" where
  "digit_char d = ''0123456789ABCDEF'' ! nat d"

function digits :: "int \<Rightarrow> int \<Rightarrow> string" where
  \<comment> \<open>the digits of \<open>n \<ge> 0\<close> in base \<open>b\<close>, most significant first\<close>
  "digits b n =
     (if n < b \<or> b < 2 then [digit_char n] else digits b (n div b) @ [digit_char (n mod b)])"
  by pat_completeness auto
termination
  by (relation "measure (\<lambda>(b, n). nat n)") (auto simp: not_less intro: int_div_less_self)

declare digits.simps [simp del]

definition fmt_0d :: "nat \<Rightarrow> int \<Rightarrow> string" where
  \<comment> \<open>\<open>'%0<w>d' % n\<close>: decimal, filled with zeros after the sign up to width \<open>w\<close>\<close>
  "fmt_0d w n =
     (let sign = (if n < 0 then ''-'' else ''''); ds = digits 10 \<bar>n\<bar>
      in sign @ replicate (w - length sign - length ds) CHR ''0'' @ ds)"

definition fmt_pX :: "nat \<Rightarrow> int \<Rightarrow> string" where
  \<comment> \<open>\<open>'%0.<p>X' % n\<close>: upper-case hexadecimal with at least \<open>p\<close> digits\<close>
  "fmt_pX p n =
     (let sign = (if n < 0 then ''-'' else ''''); ds = digits 16 \<bar>n\<bar>
      in sign @ replicate (p - length ds) CHR ''0'' @ ds)"

section \<open>The sentence builder\<close>

record struct_time =
  tm_hour :: int
  tm_min :: int
  tm_sec :: int

definition ord :: "char \<Rightarrow> int" where
  "ord c = of_char c"

definition xor_crc :: "string \<Rightarrow> int" where
  \<comment> \<open>the loop \<open>for c in result: crc = crc ^ ord(c)\<close>, started at 0\<close>
  "xor_crc s = foldl (\<lambda>crc c. crc XOR ord c) 0 s"

definition hhmmssss :: "struct_time \<Rightarrow> string" where
  \<comment> \<open>the last \<open>%s\<close> is \<open>''\<close>: the condition \<open>0 != 0\<close> is false\<close>
  "hhmmssss t = fmt_0d 2 (tm_hour t) @ fmt_0d 2 (tm_min t) @ fmt_0d 2 (tm_sec t) @ ''''"

definition coord_min :: "rat \<Rightarrow> rat" where
  \<comment> \<open>\<open>lat_min = (lat_abs - floor(lat_deg)) * 60\<close>\<close>
  "coord_min v = fl (fl (abs v - py_floor (abs v)) * 60)"

definition coord_sec :: "rat \<Rightarrow> rat" where
  \<comment> \<open>\<open>lat_sec = round((lat_min - floor(lat_min)) * 1000)\<close>\<close>
  "coord_sec v = py_round (fl (fl (coord_min v - py_floor (coord_min v)) * 1000))"

definition lat_format :: "rat \<Rightarrow> string" where
  \<comment> \<open>\<open>'%02d%02d.%03d' % (lat_deg, lat_min, lat_sec)\<close> with \<open>lat_deg = lat_abs\<close>\<close>
  "lat_format lat =
     fmt_0d 2 (py_int \<bar>lat\<bar>) @ fmt_0d 2 (py_int (coord_min lat)) @ ''.''
       @ fmt_0d 3 (py_int (coord_sec lat))"

definition lng_format :: "rat \<Rightarrow> string" where
  \<comment> \<open>\<open>'%03d%02d.%03d' % (lng_deg, lng_min, lng_sec)\<close>\<close>
  "lng_format lng =
     fmt_0d 3 (py_int \<bar>lng\<bar>) @ fmt_0d 2 (py_int (coord_min lng)) @ ''.''
       @ fmt_0d 3 (py_int (coord_sec lng))"

definition lat_pole_prime :: "rat \<Rightarrow> string" where
  "lat_pole_prime lat = (if lat < 0 then ''S'' else ''N'')"

definition lng_pole_prime :: "rat \<Rightarrow> string" where
  "lng_pole_prime lng = (if lng < 0 then ''W'' else ''E'')"

definition tll_body :: "rat \<Rightarrow> rat \<Rightarrow> string \<Rightarrow> struct_time \<Rightarrow> string \<Rightarrow> string" where
  \<comment> \<open>the variable \<open>result\<close> of \<open>gen_tll\<close>; the parameter \<open>ROV\<close> is not used: the
      name field is the literal \<open>'ROV'\<close>\<close>
  "tll_body lat lng ROV time_t T =
     ''RATLL,01,'' @ lat_format lat @ '','' @ lat_pole_prime lat @ '',''
       @ lng_format lng @ '','' @ lng_pole_prime lng @ '','' @ ''ROV'' @ '',''
       @ hhmmssss time_t @ '','' @ T"

definition gen_tll :: "rat \<Rightarrow> rat \<Rightarrow> string \<Rightarrow> struct_time \<Rightarrow> string \<Rightarrow> string" where
  "gen_tll lat lng ROV time_t T =
     (let result = tll_body lat lng ROV time_t T;
          crc = xor_crc result AND 255
      in ''$'' @ result @ ''*'' @ fmt_pX 2 crc)"

section \<open>The position source\<close>

text \<open>
  \<open>r.json()\<close> yields a Python value decoded from JSON; Python's \<open>None\<close> is
  \<open>JNull\<close>. A number is a finite float, or an integer, which \<open>gen_tll\<close> treats as
  the float of the same value. The keys of an object are distinct, as those of a
  Python dict are.
\<close>

datatype json =
  JNull
  | JBool bool
  | JNum rat
  | JNaN
  | JInfinity
  | JStr string
  | JArr "json list"
  | JObj "(string \<times> json) list"

datatype exn =
  ValueError
  | KeyError string
  | TypeError
  | OverflowError
  | SocketError
  | SerialException
  | SystemExit int

datatype http_result =
  RequestException string
    \<comment> \<open>\<open>requests.get\<close> raised; the string is \<open>str(exc)\<close>\<close>
  | Response int string "json option"
    \<comment> \<open>\<open>r.status_code\<close>, \<open>r.text\<close>, and what \<open>r.json()\<close> returns: \<open>None\<close> when the
        body is no JSON document and \<open>r.json()\<close> raises \<open>ValueError\<close>\<close>

datatype event =
  HttpGet string
  | Print string
  | PrintHelp
  | SendTo string string int
  | SerialWrite string
  | Sleep int

definition str_int :: "int \<Rightarrow> string" where
  \<comment> \<open>\<open>str(n)\<close> of an integer\<close>
  "str_int n = (if n < 0 then ''-'' else []) @ digits 10 \<bar>n\<bar>"

definition get_data :: "(string \<Rightarrow> http_result) \<Rightarrow> string \<Rightarrow> event list \<times> (exn + json)" where
  "get_data requests_get url =
     (case requests_get url of
        RequestException exc \<Rightarrow>
          ([HttpGet url, Print (''Exception occured '' @ exc)], Inr JNull)
      | Response status_code text body \<Rightarrow>
          if status_code \<noteq> 200
          then ([HttpGet url,
                 Print (''Got error '' @ str_int status_code @ '': '' @ text)], Inr JNull)
          else (case body of
                  None \<Rightarrow> ([HttpGet url], Inl ValueError)
                | Some j \<Rightarrow> ([HttpGet url], Inr j)))"

definition get_global_position ::
  "(string \<Rightarrow> http_result) \<Rightarrow> string \<Rightarrow> event list \<times> (exn + json)" where
  "get_global_position requests_get base_url =
     get_data requests_get (base_url @ ''/api/v1/position/global'')"

fun truthy :: "json \<Rightarrow> bool" where
  \<comment> \<open>the truth value Python's \<open>if pos:\<close> takes\<close>
  "truthy JNull = False"
| "truthy (JBool b) = b"
| "truthy (JNum x) = (x \<noteq> 0)"
| "truthy JNaN = True"
| "truthy JInfinity = True"
| "truthy (JStr s) = (s \<noteq> [])"
| "truthy (JArr xs) = (xs \<noteq> [])"
| "truthy (JObj kvs) = (kvs \<noteq> [])"

fun subscript :: "json \<Rightarrow> string \<Rightarrow> exn + json" where
  \<comment> \<open>\<open>pos[key]\<close> with a string key\<close>
  "subscript (JObj kvs) key =
     (case map_of kvs key of None \<Rightarrow> Inl (KeyError key) | Some v \<Rightarrow> Inr v)"
| "subscript _ key = Inl TypeError"

fun to_float :: "json \<Rightarrow> exn + rat" where
  \<comment> \<open>what \<open>gen_tll\<close> makes of a coordinate argument: \<open>abs\<close> rejects what is no
      number, \<open>%d\<close> rejects a float that is not finite, and \<open>True\<close> and \<open>False\<close> are
      the integers 1 and 0\<close>
  "to_float (JNum x) = Inr x"
| "to_float (JBool b) = Inr (if b then 1 else 0)"
| "to_float JNaN = Inl ValueError"
| "to_float JInfinity = Inl OverflowError"
| "to_float _ = Inl TypeError"

definition gen_tll_py ::
  "json \<Rightarrow> json \<Rightarrow> string \<Rightarrow> struct_time \<Rightarrow> string \<Rightarrow> exn + string" where
  \<comment> \<open>\<open>gen_tll\<close> on decoded values: the latitude lines run before the longitude lines\<close>
  "gen_tll_py lat lng ROV time_t T =
     (case to_float lat of
        Inl e \<Rightarrow> Inl e
      | Inr la \<Rightarrow>
          (case to_float lng of
             Inl e \<Rightarrow> Inl e
           | Inr lo \<Rightarrow> Inr (gen_tll la lo ROV time_t T)))"

section \<open>The poll loop\<close>

definition send_udp :: "bool \<Rightarrow> string \<Rightarrow> int \<Rightarrow> string \<Rightarrow> event list \<times> exn option" where
  \<comment> \<open>\<open>sock.sendto(message, (ip, port))\<close>: the datagram is the message as it is\<close>
  "send_udp raises ip port message =
     (if raises then ([], Some SocketError) else ([SendTo message ip port], None))"

definition ser_write :: "bool \<Rightarrow> string \<Rightarrow> event list \<times> exn option" where
  "ser_write raises data = (if raises then ([], Some SerialException) else ([SerialWrite data], None))"

record args =
  url :: string
  ip :: string
  port :: int
  serial :: string
  baud :: int

record cycle_env =
  requests_get :: "string \<Rightarrow> http_result"
  gmtime :: struct_time
  sendto_raises :: bool
  write_raises :: bool

definition dispatch :: "args \<Rightarrow> cycle_env \<Rightarrow> string \<Rightarrow> event list \<times> exn option" where
  \<comment> \<open>lines 112 to 117: \<open>sock\<close> is set when \<open>args.ip\<close> is not empty, \<open>ser\<close> when
      \<open>args.serial\<close> is not empty\<close>
  "dispatch a env sentence =
     (let out1 = [Print sentence];
          (out2, r2) = (if ip a \<noteq> [] then send_udp (sendto_raises env) (ip a) (port a) sentence
                        else ([], None))
      in case r2 of
           Some e \<Rightarrow> (out1 @ out2, Some e)
         | None \<Rightarrow>
             (let (out3, r3) = (if serial a \<noteq> [] then ser_write (write_raises env) (sentence @ [CHR 0x0A])
                                else ([], None))
              in case r3 of
                   Some e \<Rightarrow> (out1 @ out2 @ out3, Some e)
                 | None \<Rightarrow> (out1 @ out2 @ out3 @ [Sleep 1], None)))"

definition poll_cycle :: "args \<Rightarrow> cycle_env \<Rightarrow> event list \<times> exn option" where
  \<comment> \<open>one pass through the body of \<open>while True\<close>\<close>
  "poll_cycle a env =
     (case get_global_position (requests_get env) (url a) of
        (out, Inl e) \<Rightarrow> (out, Some e)
      | (out, Inr pos) \<Rightarrow>
          if truthy pos then
            (case subscript pos ''lat'' of
               Inl e \<Rightarrow> (out, Some e)
             | Inr lat \<Rightarrow>
                 (case subscript pos ''lon'' of
                    Inl e \<Rightarrow> (out, Some e)
                  | Inr lon \<Rightarrow>
                      (case gen_tll_py lat lon ''ROV'' (gmtime env) ''T'' of
                         Inl e \<Rightarrow> (out, Some e)
                       | Inr sentence \<Rightarrow>
                           (let (out', r) = dispatch a env sentence in (out @ out', r)))))
          else (out, None))"

fun main_loop :: "args \<Rightarrow> cycle_env list \<Rightarrow> event list \<times> exn option" where
  \<comment> \<open>\<open>while True\<close> has no exit of its own: it runs as long as the environment
      answers, here a list with one entry for each pass, and stops before the end of
      the list only when a pass raises. \<open>None\<close> is a loop that is still running.\<close>
  "main_loop a [] = ([], None)"
| "main_loop a (env # envs) =
     (case poll_cycle a env of
        (out, Some e) \<Rightarrow> (out, Some e)
      | (out, None) \<Rightarrow> (let (out', r) = main_loop a envs in (out @ out', r)))"

definition main :: "args \<Rightarrow> bool \<Rightarrow> cycle_env list \<Rightarrow> event list \<times> exn option" where
  \<comment> \<open>\<open>main\<close> after the arguments are parsed; \<open>serial_raises\<close> says that
      \<open>serial.Serial\<close> cannot open the port\<close>
  "main a serial_raises envs =
     (if \<not> (ip a \<noteq> [] \<or> serial a \<noteq> [])
      then ([PrintHelp,
             Print ''ERROR: Please specify either serial port to use or ip address to use''],
            Some (SystemExit 1))
      else
        (let banner = Print (''Using base_url: '' @ url a @ ''. Serial ''
                 @ (if serial a \<noteq> [] then serial a else ''disabled'') @ ''. UDP: ''
                 @ (if ip a \<noteq> [] then ip a else ''disabled'') @ '' ''
                 @ (if ip a \<noteq> [] then str_int (port a) else []))
         in if serial a \<noteq> [] \<and> serial_raises then ([banner], Some SerialException)
            else (let (out, r) = main_loop a envs in (banner # out, r))))"

section \<open>The checksum as the sentence format defines it\<close>

text \<open>
  The checksum of an NMEA sentence, in the words of the format: the exclusive or of the
  bytes between \<open>$\<close> and \<open>*\<close>, an 8-bit value, written as two upper-case
  hexadecimal digits, the high one first.
\<close>

definition nmea_checksum :: "string \<Rightarrow> 8 word" where
  "nmea_checksum s = foldl (\<lambda>w c. w XOR of_char c) 0 s"

definition hex_digit :: "nat \<Rightarrow> char" where
  "hex_digit n = (if n < 10 then ''0123456789'' ! n else ''ABCDEF'' ! (n - 10))"

definition hex2 :: "8 word \<Rightarrow> string" where
  "hex2 w = [hex_digit (unat w div 16), hex_digit (unat w mod 16)]"

text \<open>The fields of a sentence are the parts between its commas.\<close>

fun nmea_fields :: "string \<Rightarrow> string list" where
  "nmea_fields [] = [[]]"
| "nmea_fields (c # cs) =
     (if c = CHR '','' then [] # nmea_fields cs
      else (case nmea_fields cs of [] \<Rightarrow> [[c]] | f # fs \<Rightarrow> (c # f) # fs))"

section \<open>Inputs of the examples\<close>

text \<open>
  The defaults of the argument parser, the same with a serial port, the serial port
  alone, and an environment
  for one pass of the loop that answers every request with the same result.
\<close>

definition default_args :: args where
  "default_args = \<lparr>url = ''http://demo.waterlinked.com'', ip = ''127.0.0.1'', port = 5500,
     serial = [], baud = 9600\<rparr>"

definition both_sinks :: args where
  "both_sinks = default_args\<lparr>serial := ''/dev/ttyUSB0''\<rparr>"

definition serial_only :: args where
  "serial_only = default_args\<lparr>ip := [], serial := ''/dev/ttyUSB0''\<rparr>"

definition env_of :: "http_result \<Rightarrow> bool \<Rightarrow> bool \<Rightarrow> cycle_env" where
  "env_of r su sw = \<lparr>requests_get = (\<lambda>u. r), gmtime = \<lparr>tm_hour = 1, tm_min = 52, tm_sec = 0\<rparr>,
     sendto_raises = su, write_raises = sw\<rparr>"

definition position_at :: "rat \<Rightarrow> rat \<Rightarrow> http_result" where
  "position_at lat lon = Response 200 [] (Some (JObj [(''lat'', JNum lat), (''lon'', JNum lon)]))"

abbreviation position_url :: "args \<Rightarrow> string" where
  "position_url a \<equiv> url a @ ''/api/v1/position/global''"

section \<open>The checksum of a generated sentence\<close>

lemma foldl_xor_word:
  "(word_of_int (foldl (\<lambda>crc c. crc XOR ord c) a s) :: 8 word)
     = foldl (\<lambda>w c. w XOR of_char c) (word_of_int a) s"
proof (induction s arbitrary: a)
  case Nil show ?case by simp
next
  case (Cons c s)
  have "(word_of_int (a XOR ord c) :: 8 word) = word_of_int a XOR of_char c"
    by (simp add: ord_def of_int_xor_eq of_int_of_char)
  with Cons show ?case by simp
qed

lemma xor_crc_word: "xor_crc s AND 255 = uint (nmea_checksum s)"
proof -
  have "(word_of_int (xor_crc s) :: 8 word) = nmea_checksum s"
    using foldl_xor_word [of 0 s] by (simp add: xor_crc_def nmea_checksum_def)
  then have "uint (nmea_checksum s) = take_bit 8 (xor_crc s)"
    by (metis uint_word_of_int_eq len_bit0 len_num1 mult_2 numeral_Bit0 one_add_one) 
  also have "\<dots> = xor_crc s AND 255"
    by (simp add: take_bit_eq_mask mask_eq_exp_minus_1)
  finally show ?thesis by simp
qed

lemma digit_char_hex: "d < 16 \<Longrightarrow> digit_char (int d) = hex_digit d"
proof -
  assume "d < 16"
  then have "d = 0 \<or> d = 1 \<or> d = 2 \<or> d = 3 \<or> d = 4 \<or> d = 5 \<or> d = 6 \<or> d = 7
      \<or> d = 8 \<or> d = 9 \<or> d = 10 \<or> d = 11 \<or> d = 12 \<or> d = 13 \<or> d = 14 \<or> d = 15"
    by arith
  then show ?thesis
    by (elim disjE) (simp_all add: digit_char_def hex_digit_def)
qed

lemma digits16_small: "0 \<le> v \<Longrightarrow> v < 16 \<Longrightarrow> digits 16 v = [digit_char v]"
  by (simp add: digits.simps)

lemma digits16_two: "16 \<le> v \<Longrightarrow> v < 256 \<Longrightarrow> digits 16 v = [digit_char (v div 16), digit_char (v mod 16)]"
  by (subst digits.simps) (simp add: digits16_small)

lemma fmt_pX_byte: "0 \<le> v \<Longrightarrow> v < 256 \<Longrightarrow> fmt_pX 2 v = [digit_char (v div 16), digit_char (v mod 16)]"
  by (cases "v < 16") (simp_all add: fmt_pX_def digits16_small digits16_two digit_char_def)

lemma fmt_pX_word: "fmt_pX 2 (uint (w :: 8 word)) = hex2 w"
proof -
  have b: "0 \<le> uint w" "uint w < 256"
    using unsigned_less [of w, where ?'a = int] by simp_all
  have hi: "digit_char (uint w div 16) = hex_digit (unat w div 16)"
  proof -
    have "nat (uint w div 16) < 16" using b by simp
    then have "digit_char (int (nat (uint w div 16))) = hex_digit (nat (uint w div 16))"
      by (rule digit_char_hex)
    moreover have "nat (uint w div 16) = unat w div 16"
      by (simp add: nat_div_distrib)
    ultimately show ?thesis using b by (simp add: zdiv_int)
  qed
  have lo: "digit_char (uint w mod 16) = hex_digit (unat w mod 16)"
  proof -
    have "nat (uint w mod 16) < 16" by simp
    then have "digit_char (int (nat (uint w mod 16))) = hex_digit (nat (uint w mod 16))"
      by (rule digit_char_hex)
    moreover have "nat (uint w mod 16) = unat w mod 16"
      by (simp add: nat_mod_distrib)
    ultimately show ?thesis by (simp add: zmod_int)
  qed
  show ?thesis
    using b by (simp add: fmt_pX_byte hex2_def hi lo)
qed

text \<open>
  C1: for every latitude, longitude, time and status, the sentence \<open>gen_tll\<close> returns is
  \<open>$\<close>, the body, \<open>*\<close> and two characters, and these are the exclusive or of the
  8-bit codes of all characters of the body, as two upper-case hexadecimal digits
  filled with a zero.
\<close>

theorem gen_tll_checksum:
  "gen_tll lat lng ROV time_t T =
     ''$'' @ tll_body lat lng ROV time_t T @ ''*''
       @ hex2 (nmea_checksum (tll_body lat lng ROV time_t T))"
  by (simp add: gen_tll_def Let_def xor_crc_word fmt_pX_word)

section \<open>The sentence of the example\<close>

text \<open>
  C2: latitude 56.05617 and longitude 18.99960, as the floats these literals denote, at
  01:52:00 with status \<open>T\<close> give the fields \<open>5603.370,N\<close> and \<open>01859.976,E\<close>, the
  target id \<open>01\<close>, the name \<open>ROV\<close> and the time \<open>015200\<close> without a fraction; the
  checksum of that body is \<open>6D\<close>.
\<close>

theorem gen_tll_example:
  "gen_tll (fl (5605617 / 100000)) (fl (1899960 / 100000)) ''ROV''
      \<lparr>tm_hour = 1, tm_min = 52, tm_sec = 0\<rparr> ''T''
     = ''$RATLL,01,5603.370,N,01859.976,E,ROV,015200,T*6D''"
  by code_simp

section \<open>Minutes that round up to sixty\<close>

text \<open>
  C3: the latitude 3.99999333 is 3 degrees and 59.9995998 minutes, which is 60.000
  minutes at three decimals. \<open>gen_tll\<close> does not carry into the degrees: the field is
  neither \<open>0400.000\<close> nor of the width of the format, its thousandths are \<open>1000\<close>.
\<close>

theorem lat_format_no_carry:
  "lat_format (fl (399999333 / 100000000)) = ''0359.1000''"
  by code_simp

section \<open>Widths of the coordinate fields\<close>

text \<open>
  Rounding to binary64 keeps a value that is not negative between 0 and any integer
  bound below \<open>2 ^ 53\<close> that it does not exceed. Hence the minutes stay within 0 and
  60, and the thousandths within 0 and 1000.
\<close>

lemma ilog2_lower:
  assumes "0 < x"
  shows "2 powi (ilog2 x) \<le> x"
proof -
  obtain a b where q: "quotient_of x = (a, b)" by (cases "quotient_of x")
  then have b: "0 < b" by (rule quotient_of_denom_pos)
  from q have x: "x = of_int a / of_int b" by (rule quotient_of_div)
  with assms b have a: "0 < a" by (simp add: zero_less_divide_iff)
  define k where "k = bitlen a - bitlen b"
  show ?thesis
  proof (cases "2 powi k \<le> x")
    case True
    with q show ?thesis by (simp add: ilog2_def k_def)
  next
    case False
    have la: "1 \<le> bitlen a" using a by (simp add: bitlen_alt_def)
    have lb: "1 \<le> bitlen b" using b by (simp add: bitlen_alt_def)
    have "(2::int) ^ nat (bitlen a - 1) \<le> a" using bitlen_bounds [OF a] by simp
    then have "(of_int ((2::int) ^ nat (bitlen a - 1)) :: rat) \<le> of_int a"
      by (simp only: of_int_le_iff)
    then have lo: "(2::rat) powi (bitlen a - 1) \<le> of_int a"
      using la by (simp add: power_int_def)
    have "b < 2 ^ nat (bitlen b)" using bitlen_bounds [OF b] by simp
    then have "(of_int b :: rat) < of_int ((2::int) ^ nat (bitlen b))"
      by (simp only: of_int_less_iff)
    then have hi: "(of_int b :: rat) < 2 powi (bitlen b)"
      using lb by (simp add: power_int_def)
    have "(2::rat) powi (k - 1) = 2 powi (bitlen a - 1) / 2 powi (bitlen b)"
      by (simp add: k_def power_int_diff [symmetric] algebra_simps)
    also have "\<dots> \<le> of_int a / 2 powi (bitlen b)"
      using lo by (simp add: divide_right_mono)
    also have "\<dots> \<le> of_int a / of_int b"
      using hi a b by (intro divide_left_mono) (simp_all)
    finally have "(2::rat) powi (k - 1) \<le> x" by (simp add: x)
    with False q show ?thesis by (simp add: ilog2_def k_def)
  qed
qed

lemma quantum_inverse_nat:
  assumes "0 < x" and "x < 2 ^ 53"
  shows "\<exists>N::nat. 0 < N \<and> quantum x = 1 / of_nat N"
proof -
  have "2 powi (ilog2 x) \<le> x" using assms(1) by (rule ilog2_lower)
  also have "x < 2 powi 53" using assms(2) by simp
  finally have "ilog2 x < 53"
    by (rule power_int_le_imp_less_exp [rotated]) simp_all
  then have e: "max (ilog2 x - 52) (- 1074) \<le> 0" by simp
  define e where "e = max (ilog2 x - 52) (- 1074)"
  have "quantum x = 2 powi e" using assms(1) by (simp add: quantum_def e_def)
  also have "\<dots> = 1 / 2 ^ nat (- e)"
    using e by (cases "e = 0") (simp_all add: power_int_def e_def inverse_eq_divide power_one_over)
  also have "\<dots> = 1 / of_nat (2 ^ nat (- e))" by simp
  finally show ?thesis by (intro exI [of _ "2 ^ nat (- e)"]) simp
qed

lemma rne_le:
  assumes "x \<le> of_int m"
  shows "rne x \<le> m"
proof -
  have f: "\<lfloor>x\<rfloor> \<le> m" using assms by (simp add: floor_le_iff) 
  show ?thesis
  proof (cases "x - of_int \<lfloor>x\<rfloor> < 1 / 2")
    case True
    with f show ?thesis by (simp add: rne_def Let_def)
  next
    case False
    then have "of_int \<lfloor>x\<rfloor> < x" by simp
    with assms have "(of_int \<lfloor>x\<rfloor> :: rat) < of_int m" by simp
    then have "\<lfloor>x\<rfloor> + 1 \<le> m" by simp
    with f show ?thesis by (simp add: rne_def Let_def)
  qed
qed

lemma rne_nonneg:
  assumes "0 \<le> x"
  shows "0 \<le> rne x"
proof -
  have "0 \<le> \<lfloor>x\<rfloor>" using assms by simp
  then show ?thesis by (simp add: rne_def Let_def)
qed

lemma quantum_pos: "0 < quantum x"
  by (simp add: quantum_def)

lemma fl_nonneg:
  assumes "0 \<le> x"
  shows "0 \<le> fl x"
proof (cases "x = 0")
  case True then show ?thesis by (simp add: fl_def)
next
  case False
  have "0 \<le> x / quantum x" using assms quantum_pos [of x] by simp
  then have "0 \<le> rne (x / quantum x)" by (rule rne_nonneg)
  with False quantum_pos [of x] show ?thesis by (simp add: fl_def)
qed

lemma fl_le_nat:
  assumes "0 \<le> x" and "x \<le> of_nat n" and "n < 2 ^ 53"
  shows "fl x \<le> of_nat n"
proof (cases "x = 0")
  case True then show ?thesis by (simp add: fl_def)
next
  case False
  with assms(1) have pos: "0 < x" by simp
  have "(of_nat n :: rat) < of_nat (2 ^ 53)" using assms(3) by (simp only: of_nat_less_iff)
  with assms(2) have "x < 2 ^ 53" by simp
  with pos obtain N :: nat where N: "0 < N" "quantum x = 1 / of_nat N"
    using quantum_inverse_nat by blast
  have "x / quantum x = x * of_nat N" using N by simp
  also have "\<dots> \<le> of_nat n * of_nat N" using assms(2) by (simp add: mult_right_mono)
  also have "\<dots> = of_int (int (n * N))" by simp
  finally have "rne (x / quantum x) \<le> int (n * N)" by (rule rne_le)
  then have "(of_int (rne (x / quantum x)) :: rat) \<le> of_int (int (n * N))"
    by (simp only: of_int_le_iff)
  then have "of_int (rne (x / quantum x)) * quantum x \<le> of_int (int (n * N)) * quantum x"
    using quantum_pos [of x] by (simp add: mult_right_mono)
  also have "\<dots> = of_nat n" using N by simp
  finally show ?thesis using False by (simp add: fl_def)
qed


lemma frac_bounds: "0 \<le> y - py_floor y \<and> y - py_floor y \<le> 1"
proof -
  have "of_int \<lfloor>y\<rfloor> \<le> y" "y < of_int \<lfloor>y\<rfloor> + 1" by linarith+
  then show ?thesis by (simp add: py_floor_def)
qed

lemma fl_frac_bounds: "0 \<le> fl (y - py_floor y) \<and> fl (y - py_floor y) \<le> 1"
  using frac_bounds [of y] fl_nonneg [of "y - py_floor y"] fl_le_nat [of "y - py_floor y" 1]
  by simp

lemma coord_min_bounds: "0 \<le> coord_min v \<and> coord_min v \<le> 60"
proof -
  let ?f = "fl (\<bar>v\<bar> - py_floor \<bar>v\<bar>)"
  have f: "0 \<le> ?f" "?f \<le> 1" using fl_frac_bounds [of "\<bar>v\<bar>"] by simp_all
  then have "0 \<le> ?f * 60" "?f * 60 \<le> of_nat 60" by simp_all
  then show ?thesis
    using fl_nonneg [of "?f * 60"] fl_le_nat [of "?f * 60" 60] by (simp add: coord_min_def)
qed

lemma coord_sec_bounds: "\<exists>k. 0 \<le> k \<and> k \<le> 1000 \<and> coord_sec v = of_int k"
proof -
  let ?g = "fl (coord_min v - py_floor (coord_min v))"
  let ?t = "fl (?g * 1000)"
  have g: "0 \<le> ?g" "?g \<le> 1" using fl_frac_bounds [of "coord_min v"] by simp_all
  then have "0 \<le> ?g * 1000" "?g * 1000 \<le> of_nat 1000" by simp_all
  then have t: "0 \<le> ?t" "?t \<le> 1000"
    using fl_nonneg [of "?g * 1000"] fl_le_nat [of "?g * 1000" 1000] by simp_all
  have "0 \<le> \<lfloor>?t + 1 / 2\<rfloor>" using t(1) by simp
  moreover have "\<lfloor>?t + 1 / 2\<rfloor> \<le> 1000"
  proof -
    have "?t + 1 / 2 < of_int 1001" using t(2) by simp
    then have "\<lfloor>?t + 1 / 2\<rfloor> < 1001" by (simp only: floor_less_iff)
    then show ?thesis by simp
  qed
  moreover have "coord_sec v = of_int \<lfloor>?t + 1 / 2\<rfloor>"
    using t(1) by (simp add: coord_sec_def py_round_def)
  ultimately show ?thesis by blast
qed

text \<open>
  In range the degrees have two digits in the latitude and three in the longitude, the
  minutes have two integer digits, and the fraction has three digits unless the
  thousandths have rounded to 1000.
\<close>

lemma length_digits10:
  assumes "0 \<le> k"
  shows "k < 10 \<Longrightarrow> length (digits 10 k) = 1"
    and "10 \<le> k \<Longrightarrow> k < 100 \<Longrightarrow> length (digits 10 k) = 2"
    and "100 \<le> k \<Longrightarrow> k < 1000 \<Longrightarrow> length (digits 10 k) = 3"
proof -
  show 1: "length (digits 10 k) = 1" if "k < 10" for k :: int
    using that by (simp add: digits.simps)
  show 2: "length (digits 10 k) = 2" if "10 \<le> k" "k < 100" for k :: int
    using that by (subst digits.simps) (simp add: 1)
  show "length (digits 10 k) = 3" if "100 \<le> k" "k < 1000"
    using that by (subst digits.simps) (simp add: 2)
qed

lemma length_fmt_0d_2:
  assumes "0 \<le> k" and "k < 100"
  shows "length (fmt_0d 2 k) = 2"
  using assms length_digits10 [of k]
  by (cases "k < 10") (simp_all add: fmt_0d_def Let_def)

lemma length_fmt_0d_3:
  assumes "0 \<le> k" and "k < 1000"
  shows "length (fmt_0d 3 k) = 3"
proof -
  consider "k < 10" | "10 \<le> k" "k < 100" | "100 \<le> k" using assms by linarith
  then show ?thesis
    using assms length_digits10 [of k] by cases (simp_all add: fmt_0d_def Let_def)
qed

lemma fmt_0d_1000: "fmt_0d 3 1000 = ''1000''"
  by (simp add: fmt_0d_def digits.simps digit_char_def)

lemma minutes_shape:
  "\<exists>m f. fmt_0d 2 (py_int (coord_min v)) @ ''.'' @ fmt_0d 3 (py_int (coord_sec v))
      = m @ ''.'' @ f \<and> length m = 2 \<and> (length f = 3 \<or> f = ''1000'')"
proof -
  have "0 \<le> py_int (coord_min v)" "py_int (coord_min v) < 100"
    using coord_min_bounds [of v] by (simp_all add: py_int_def floor_less_iff)
  then have m: "length (fmt_0d 2 (py_int (coord_min v))) = 2" by (rule length_fmt_0d_2)
  obtain k where k: "0 \<le> k" "k \<le> 1000" "coord_sec v = of_int k"
    using coord_sec_bounds by blast
  then have pk: "py_int (coord_sec v) = k" by (simp add: py_int_def)
  have "length (fmt_0d 3 k) = 3 \<or> fmt_0d 3 k = ''1000''"
  proof (cases "k = 1000")
    case True then show ?thesis by (simp add: fmt_0d_1000)
  next
    case False
    with k have "k < 1000" by simp
    with k(1) show ?thesis by (simp add: length_fmt_0d_3)
  qed
  with m pk show ?thesis by blast
qed

lemma lat_format_shape:
  assumes "\<bar>lat\<bar> \<le> 90"
  shows "\<exists>d m f. lat_format lat = d @ m @ ''.'' @ f \<and> length d = 2 \<and> length m = 2
           \<and> (length f = 3 \<or> f = ''1000'')"
proof -
  have "0 \<le> py_int \<bar>lat\<bar>" "py_int \<bar>lat\<bar> < 100"
    using assms by (simp_all add: py_int_def floor_less_iff)
  then have "length (fmt_0d 2 (py_int \<bar>lat\<bar>)) = 2" by (rule length_fmt_0d_2)
  with minutes_shape [of lat] show ?thesis unfolding lat_format_def by blast
qed

lemma lng_format_shape:
  assumes "\<bar>lng\<bar> \<le> 180"
  shows "\<exists>d m f. lng_format lng = d @ m @ ''.'' @ f \<and> length d = 3 \<and> length m = 2
           \<and> (length f = 3 \<or> f = ''1000'')"
proof -
  have "0 \<le> py_int \<bar>lng\<bar>" "py_int \<bar>lng\<bar> < 1000"
    using assms by (simp_all add: py_int_def floor_less_iff)
  then have "length (fmt_0d 3 (py_int \<bar>lng\<bar>)) = 3" by (rule length_fmt_0d_3)
  with minutes_shape [of lng] show ?thesis unfolding lng_format_def by blast
qed

text \<open>
  C7: the widths of the degrees and of the integer minutes hold in range, the width
  of the fraction does not. At 45.9999925 south and 179.9999917 east the thousandths
  round to 1000, and the fraction of both fields has four digits where the format has
  three.
\<close>

theorem format_fraction_four_digits:
  "lat_format (fl (- (459999925 / 10000000))) = ''4559.1000''
   \<and> lng_format (fl (1799999917 / 10000000)) = ''17959.1000''"
  by code_simp

section \<open>The name argument\<close>

lemma nmea_fields_append:
  "CHR '','' \<notin> set xs \<Longrightarrow> nmea_fields (xs @ CHR '','' # ys) = xs # nmea_fields ys"
  by (induction xs) auto

lemma digit_char_no_comma:
  assumes "d < 16"
  shows "CHR '','' \<noteq> digit_char d"
proof -
  define m where "m = nat d"
  have "m < 16" using assms by (simp add: m_def)
  then have "m = 0 \<or> m = 1 \<or> m = 2 \<or> m = 3 \<or> m = 4 \<or> m = 5 \<or> m = 6 \<or> m = 7
      \<or> m = 8 \<or> m = 9 \<or> m = 10 \<or> m = 11 \<or> m = 12 \<or> m = 13 \<or> m = 14 \<or> m = 15"
    by arith
  then have "CHR '','' \<noteq> ''0123456789ABCDEF'' ! m"
    by (elim disjE) simp_all
  then show ?thesis by (simp add: digit_char_def m_def)
qed

lemma digits10_no_comma: "CHR '','' \<notin> set (digits 10 n)"
proof (induction "10 :: int" n rule: digits.induct)
  case (1 n)
  show ?case
  proof (cases "n < 10")
    case True
    then show ?thesis by (subst digits.simps) (simp add: digit_char_no_comma)
  next
    case False
    have "n mod 10 < 10" by simp
    then have "n mod 10 < 16" by linarith
    with False 1 show ?thesis
      by (subst digits.simps) (simp add: digit_char_no_comma)
  qed
qed

lemma fmt_0d_no_comma: "CHR '','' \<notin> set (fmt_0d w n)"
  by (simp add: fmt_0d_def Let_def digits10_no_comma)

lemma lat_format_no_comma: "CHR '','' \<notin> set (lat_format lat)"
  by (simp add: lat_format_def fmt_0d_no_comma)

lemma lng_format_no_comma: "CHR '','' \<notin> set (lng_format lng)"
  by (simp add: lng_format_def fmt_0d_no_comma)

lemma pole_no_comma:
  "CHR '','' \<notin> set (lat_pole_prime lat)" "CHR '','' \<notin> set (lng_pole_prime lng)"
  by (simp_all add: lat_pole_prime_def lng_pole_prime_def)

lemma nmea_fields_body:
  "\<exists>rest. nmea_fields (''$RATLL,01,'' @ lat_format lat @ '','' @ lat_pole_prime lat @ '',''
       @ lng_format lng @ '','' @ lng_pole_prime lng @ '','' @ ''ROV'' @ '','' @ zs)
     = [''$RATLL'', ''01'', lat_format lat, lat_pole_prime lat, lng_format lng,
        lng_pole_prime lng, ''ROV''] @ rest"
  by (simp add: nmea_fields_append lat_format_no_comma lng_format_no_comma pole_no_comma)

text \<open>
  C8: the target name handed to \<open>gen_tll\<close> does not reach the sentence: two calls that
  differ in the name only return the same sentence, and the seventh field of the
  sentence, the ship name, is the literal \<open>ROV\<close>.
\<close>

theorem gen_tll_name_ignored:
  "gen_tll lat lng name1 time_t T = gen_tll lat lng name2 time_t T
   \<and> nmea_fields (gen_tll lat lng name1 time_t T) ! 6 = ''ROV''"
proof -
  obtain rest where
    "nmea_fields (gen_tll lat lng name1 time_t T) =
       [''$RATLL'', ''01'', lat_format lat, lat_pole_prime lat, lng_format lng,
        lng_pole_prime lng, ''ROV''] @ rest"
    using nmea_fields_body [of lat lng] 
    by (auto simp add: gen_tll_def tll_body_def Let_def)
  then show ?thesis by (simp add: gen_tll_def tll_body_def)
qed

section \<open>One pass of the poll loop\<close>

lemma get_data_no_sleep: "Sleep n \<notin> set (fst (get_data g u))"
  by (auto simp: get_data_def split: http_result.splits option.splits)

lemma poll_cycle_position:
  assumes "requests_get env (url a @ ''/api/v1/position/global'') = Response 200 text (Some (JObj kvs))"
    and "map_of kvs ''lat'' = Some (JNum lat)" and "map_of kvs ''lon'' = Some (JNum lon)"
  shows "poll_cycle a env =
    (HttpGet (url a @ ''/api/v1/position/global'')
       # fst (dispatch a env (gen_tll lat lon ''ROV'' (gmtime env) ''T'')),
     snd (dispatch a env (gen_tll lat lon ''ROV'' (gmtime env) ''T'')))"
proof -
  from assms(2) have "kvs \<noteq> []" by auto
  with assms show ?thesis
    by (simp add: poll_cycle_def get_global_position_def get_data_def gen_tll_py_def
        split: prod.splits)
qed

lemma dispatch_cases:
  "dispatch a env sentence =
     (if ip a \<noteq> [] \<and> sendto_raises env then ([Print sentence], Some SocketError)
      else if serial a \<noteq> [] \<and> write_raises env
      then (Print sentence # (if ip a \<noteq> [] then [SendTo sentence (ip a) (port a)] else []),
            Some SerialException)
      else (Print sentence # (if ip a \<noteq> [] then [SendTo sentence (ip a) (port a)] else [])
              @ (if serial a \<noteq> [] then [SerialWrite (sentence @ [CHR 0x0A])] else [])
              @ [Sleep 1], None))"
  by (simp add: dispatch_def send_udp_def ser_write_def)


text \<open>
  C9: a pass that generates a sentence hands it to the lines modelled by \<open>dispatch\<close>
  (\<open>poll_cycle_position\<close>). In every configuration of the sinks, and whatever write
  fails, a datagram sent over UDP is the sentence as it is, to the configured address,
  and what is written to the serial port is the sentence followed by one newline. The
  dispatch completes unless the write to a configured sink raises, and then it has
  printed the sentence, sent it once to each configured sink, UDP first, and slept.
\<close>

theorem dispatch_payloads:
  "(\<forall>m h p. SendTo m h p \<in> set (fst (dispatch a env sentence))
        \<longrightarrow> m = sentence \<and> h = ip a \<and> p = port a)
   \<and> (\<forall>d. SerialWrite d \<in> set (fst (dispatch a env sentence))
        \<longrightarrow> d = sentence @ [CHR 0x0A])
   \<and> (snd (dispatch a env sentence) = None
        \<longleftrightarrow> \<not> (ip a \<noteq> [] \<and> sendto_raises env) \<and> \<not> (serial a \<noteq> [] \<and> write_raises env))
   \<and> (snd (dispatch a env sentence) = None \<longrightarrow>
        fst (dispatch a env sentence) =
          [Print sentence]
            @ (if ip a \<noteq> [] then [SendTo sentence (ip a) (port a)] else [])
            @ (if serial a \<noteq> [] then [SerialWrite (sentence @ [CHR 0x0A])] else [])
            @ [Sleep 1])"
proof (intro conjI)
  show "\<forall>m h p. SendTo m h p \<in> set (fst (dispatch a env sentence))
        \<longrightarrow> m = sentence \<and> h = ip a \<and> p = port a"
    by (simp add: dispatch_cases)
  show "\<forall>d. SerialWrite d \<in> set (fst (dispatch a env sentence))
        \<longrightarrow> d = sentence @ [CHR 0x0A]"
    by (simp add: dispatch_cases)
  show "snd (dispatch a env sentence) = None
        \<longleftrightarrow> \<not> (ip a \<noteq> [] \<and> sendto_raises env) \<and> \<not> (serial a \<noteq> [] \<and> write_raises env)"
    by (simp add: dispatch_cases)
  show "snd (dispatch a env sentence) = None \<longrightarrow>
        fst (dispatch a env sentence) =
          [Print sentence]
            @ (if ip a \<noteq> [] then [SendTo sentence (ip a) (port a)] else [])
            @ (if serial a \<noteq> [] then [SerialWrite (sentence @ [CHR 0x0A])] else [])
            @ [Sleep 1]"
    by (simp add: dispatch_cases)
qed


theorem dispatch_payloads_witness:
  "fst (dispatch default_args (env_of (position_at 56 19) False False) ''$RATLL*00'')
     = [Print ''$RATLL*00'', SendTo ''$RATLL*00'' ''127.0.0.1'' 5500, Sleep 1]
   \<and> fst (dispatch serial_only (env_of (position_at 56 19) False False) ''$RATLL*00'')
     = [Print ''$RATLL*00'', SerialWrite (''$RATLL*00'' @ [CHR 0x0A]), Sleep 1]
   \<and> fst (dispatch both_sinks (env_of (position_at 56 19) False False) ''$RATLL*00'')
     = [Print ''$RATLL*00'', SendTo ''$RATLL*00'' ''127.0.0.1'' 5500,
        SerialWrite (''$RATLL*00'' @ [CHR 0x0A]), Sleep 1]"
proof -
  let ?e = "env_of (position_at 56 19) False False"
  let ?s = "''$RATLL*00''"
  have e: "\<not> sendto_raises ?e" "\<not> write_raises ?e" by (simp_all add: env_of_def)
  have u: "ip default_args = ''127.0.0.1''" "port default_args = 5500" "serial default_args = []"
    by (simp_all add: default_args_def)
  have s: "ip serial_only = []" "serial serial_only = ''/dev/ttyUSB0''"
    by (simp_all add: serial_only_def default_args_def)
  have b: "ip both_sinks = ''127.0.0.1''" "port both_sinks = 5500"
    "serial both_sinks = ''/dev/ttyUSB0''"
    by (simp_all add: both_sinks_def default_args_def)
  note fin = conjunct2 [THEN conjunct2, THEN conjunct1]
  note evs = conjunct2 [THEN conjunct2, THEN conjunct2]
  have "snd (dispatch default_args ?e ?s) = None"
    using dispatch_payloads [of default_args ?e ?s, THEN fin] e by simp
  with dispatch_payloads [of default_args ?e ?s, THEN evs]
  have 1: "fst (dispatch default_args ?e ?s) = [Print ?s, SendTo ?s ''127.0.0.1'' 5500, Sleep 1]"
    by (simp add: u)
  have "snd (dispatch serial_only ?e ?s) = None"
    using dispatch_payloads [of serial_only ?e ?s, THEN fin] e by simp
  with dispatch_payloads [of serial_only ?e ?s, THEN evs]
  have 2: "fst (dispatch serial_only ?e ?s) = [Print ?s, SerialWrite (?s @ [CHR 0x0A]), Sleep 1]"
    by (simp add: s)
  have "snd (dispatch both_sinks ?e ?s) = None"
    using dispatch_payloads [of both_sinks ?e ?s, THEN fin] e by simp
  with dispatch_payloads [of both_sinks ?e ?s, THEN evs]
  have 3: "fst (dispatch both_sinks ?e ?s)
      = [Print ?s, SendTo ?s ''127.0.0.1'' 5500, SerialWrite (?s @ [CHR 0x0A]), Sleep 1]"
    by (simp add: b)
  from 1 2 3 show ?thesis by (intro conjI)
qed

text \<open>
  C10: a response with status 200 whose body decodes to a falsy value is handled as an
  unavailable position is: the pass consists of the request alone; no sentence is
  generated, printed or sent.
\<close>

theorem poll_cycle_falsy:
  assumes "requests_get env (url a @ ''/api/v1/position/global'') = Response 200 text (Some pos)"
    and "\<not> truthy pos"
  shows "poll_cycle a env = ([HttpGet (url a @ ''/api/v1/position/global'')], None)"
  using assms by (simp add: poll_cycle_def get_global_position_def get_data_def)

theorem poll_cycle_falsy_witness:
  "poll_cycle default_args (env_of (Response 200 ''{}'' (Some (JObj []))) False False)
     = ([HttpGet ''http://demo.waterlinked.com/api/v1/position/global''], None)
   \<and> poll_cycle default_args (env_of (Response 200 ''null'' (Some JNull)) False False)
     = ([HttpGet ''http://demo.waterlinked.com/api/v1/position/global''], None)"
  using poll_cycle_falsy [of "env_of (Response 200 ''{}'' (Some (JObj []))) False False" default_args "''{}''" "JObj []"]
    poll_cycle_falsy [of "env_of (Response 200 ''null'' (Some JNull)) False False" default_args "''null''" "JNull"]
  by (simp add: default_args_def env_of_def)


section \<open>The sleep between passes\<close>

text \<open>
  C4 as stated fails: after a fetch that returned no position the loop goes to the next
  fetch at once. Two failing passes in a row contain no sleep at all.
\<close>

theorem main_loop_no_sleep_counterexample:
  "main_loop default_args
     [env_of (RequestException ''refused'') False False, env_of (Response 500 ''busy'' None) False False]
   = ([HttpGet ''http://demo.waterlinked.com/api/v1/position/global'',
       Print ''Exception occured refused'',
       HttpGet ''http://demo.waterlinked.com/api/v1/position/global'',
       Print ''Got error 500: busy''], None)"
  by (simp add: poll_cycle_def get_global_position_def get_data_def default_args_def env_of_def
      str_int_def digits.simps digit_char_def)


lemma poll_cycle_unavailable:
  assumes "get_global_position (requests_get env) (url a) = (out0, Inr pos)" and "\<not> truthy pos"
  shows "poll_cycle a env = (out0, None)"
  using assms by (simp add: poll_cycle_def)

lemma dispatch_done:
  assumes "dispatch a env s = (out, None)"
  shows "out \<noteq> [] \<and> last out = Sleep 1"
  using assms
  by (auto simp: dispatch_def send_udp_def ser_write_def Let_def split: if_splits prod.splits option.splits)

text \<open>
  C4, amended: \<open>time.sleep(1)\<close> is the last statement of the branch \<open>if pos:\<close>. A
  pass that gets a truthy position and completes ends with the sleep of one second; a
  pass whose fetch returns \<open>None\<close> or another falsy value does not sleep.
\<close>

theorem poll_cycle_sleep:
  assumes "get_global_position (requests_get env) (url a) = (out0, Inr pos)"
    and "poll_cycle a env = (out, None)"
  shows "if truthy pos then last out = Sleep 1 else out = out0 \<and> Sleep 1 \<notin> set out"
proof (cases "truthy pos")
  case False
  have "Sleep 1 \<notin> set out0"
    using get_data_no_sleep [of 1 "requests_get env" "url a @ ''/api/v1/position/global''"] assms(1)
    by (simp add: get_global_position_def)
  with False assms poll_cycle_unavailable [OF assms(1) False] show ?thesis by simp
next
  case True
  from assms True obtain s out' where d: "dispatch a env s = (out', None)" and o: "out = out0 @ out'"
    by (auto simp: poll_cycle_def Let_def split: sum.splits prod.splits)
  from dispatch_done [OF d] o True show ?thesis by simp
qed

theorem poll_cycle_sleep_witness:
  "last (fst (poll_cycle default_args (env_of (position_at 56 19) False False))) = Sleep 1
   \<and> fst (poll_cycle default_args (env_of (RequestException ''refused'') False False))
       = [HttpGet ''http://demo.waterlinked.com/api/v1/position/global'',
          Print ''Exception occured refused'']
   \<and> Sleep 1 \<notin> set (fst (poll_cycle default_args (env_of (RequestException ''refused'') False False)))"
proof -
  let ?u = "''http://demo.waterlinked.com/api/v1/position/global''"
  let ?good = "env_of (position_at 56 19) False False"
  let ?bad = "env_of (RequestException ''refused'') False False"
  let ?pos = "JObj [(''lat'', JNum 56), (''lon'', JNum 19)]"
  have g1: "get_global_position (requests_get ?good) (url default_args) = ([HttpGet ?u], Inr ?pos)"
    by (simp add: get_global_position_def get_data_def default_args_def env_of_def position_at_def)
  have p1: "poll_cycle default_args ?good = (fst (poll_cycle default_args ?good), None)"
  proof -
    have a: "ip default_args \<noteq> []" "serial default_args = []"
      by (simp_all add: default_args_def)
    have e: "\<not> sendto_raises ?good" by (simp add: env_of_def)
    show ?thesis
      by (simp add: poll_cycle_def g1 gen_tll_py_def dispatch_def send_udp_def a e)
  qed
  have g2: "get_global_position (requests_get ?bad) (url default_args)
      = ([HttpGet ?u, Print ''Exception occured refused''], Inr JNull)"
    by (simp add: get_global_position_def get_data_def default_args_def env_of_def)
  have p2: "poll_cycle default_args ?bad = (fst (poll_cycle default_args ?bad), None)"
    by (simp add: poll_cycle_def g2)
  from poll_cycle_sleep [OF g1 p1] poll_cycle_sleep [OF g2 p2] show ?thesis by simp
qed

section \<open>Failures of the fetch\<close>

text \<open>
  C5 as stated fails: a body that is no JSON makes \<open>r.json()\<close> raise, nothing catches
  the exception, and the loop ends; the pass after it never runs.
\<close>

theorem main_loop_decode_counterexample:
  "main_loop default_args
     [env_of (Response 200 ''<html>'' None) False False, env_of (position_at 56 19) False False]
   = ([HttpGet ''http://demo.waterlinked.com/api/v1/position/global''], Some ValueError)"
  by (simp add: poll_cycle_def get_global_position_def get_data_def default_args_def env_of_def)

text \<open>
  C5, amended: a transport failure and a status other than 200 make \<open>get_data\<close> print a
  diagnostic and return \<open>None\<close>, and the pass ends without a sentence. A body that is
  no JSON raises \<open>ValueError\<close>, and an object without \<open>lat\<close> or \<open>lon\<close> raises
  \<open>KeyError\<close>: the exception leaves the loop, and no sentence is printed or sent in
  that pass.
\<close>

theorem fetch_failure_classes:
  "(requests_get env (position_url a) = RequestException exc \<longrightarrow>
      poll_cycle a env = ([HttpGet (position_url a), Print (''Exception occured '' @ exc)], None))
   \<and> (requests_get env (position_url a) = Response code text body \<and> code \<noteq> 200 \<longrightarrow>
      poll_cycle a env =
        ([HttpGet (position_url a), Print (''Got error '' @ str_int code @ '': '' @ text)], None))
   \<and> (requests_get env (position_url a) = Response 200 text None \<longrightarrow>
      poll_cycle a env = ([HttpGet (position_url a)], Some ValueError))
   \<and> (requests_get env (position_url a) = Response 200 text (Some (JObj kvs)) \<and> kvs \<noteq> []
        \<and> map_of kvs ''lat'' = None \<longrightarrow>
      poll_cycle a env = ([HttpGet (position_url a)], Some (KeyError ''lat'')))
   \<and> (requests_get env (position_url a) = Response 200 text (Some (JObj kvs))
        \<and> map_of kvs ''lat'' = Some v \<and> map_of kvs ''lon'' = None \<longrightarrow>
      poll_cycle a env = ([HttpGet (position_url a)], Some (KeyError ''lon'')))"
  by (auto simp: poll_cycle_def get_global_position_def get_data_def)

theorem fetch_failure_classes_witness:
  "poll_cycle default_args (env_of (RequestException ''refused'') False False)
     = ([HttpGet ''http://demo.waterlinked.com/api/v1/position/global'',
         Print ''Exception occured refused''], None)
   \<and> poll_cycle default_args (env_of (Response 500 ''busy'' None) False False)
     = ([HttpGet ''http://demo.waterlinked.com/api/v1/position/global'',
         Print (''Got error '' @ str_int 500 @ '': busy'')], None)
   \<and> poll_cycle default_args (env_of (Response 200 ''<html>'' None) False False)
     = ([HttpGet ''http://demo.waterlinked.com/api/v1/position/global''], Some ValueError)
   \<and> poll_cycle default_args
         (env_of (Response 200 [] (Some (JObj [(''depth'', JNum 3)]))) False False)
     = ([HttpGet ''http://demo.waterlinked.com/api/v1/position/global''], Some (KeyError ''lat''))
   \<and> poll_cycle default_args
         (env_of (Response 200 [] (Some (JObj [(''lat'', JNum 56)]))) False False)
     = ([HttpGet ''http://demo.waterlinked.com/api/v1/position/global''], Some (KeyError ''lon''))"
  using
    fetch_failure_classes [of "env_of (RequestException ''refused'') False False" default_args
      "''refused''"]
    fetch_failure_classes [of "env_of (Response 500 ''busy'' None) False False" default_args
      _ 500 "''busy''" None]
    fetch_failure_classes [of "env_of (Response 200 ''<html>'' None) False False" default_args
      _ _ "''<html>''"]
    fetch_failure_classes [of "env_of (Response 200 [] (Some (JObj [(''depth'', JNum 3)]))) False False"
      default_args _ _ "[]" _ "[(''depth'', JNum 3)]"]
    fetch_failure_classes [of "env_of (Response 200 [] (Some (JObj [(''lat'', JNum 56)]))) False False"
      default_args _ _ "[]" _ "[(''lat'', JNum 56)]" "JNum 56"]
  by (simp add: default_args_def env_of_def)

section \<open>Failures of a sink\<close>

text \<open>
  C6 as stated fails: with both sinks configured, a serial write that raises ends the
  loop. The sentence has been sent over UDP before, but the next pass never runs.
\<close>

theorem main_loop_serial_failure_counterexample:
  "main_loop both_sinks
     [env_of (position_at 56 19) False True, env_of (position_at 56 19) False False]
   = ([HttpGet ''http://demo.waterlinked.com/api/v1/position/global'',
       Print (gen_tll 56 19 ''ROV'' \<lparr>tm_hour = 1, tm_min = 52, tm_sec = 0\<rparr> ''T''),
       SendTo (gen_tll 56 19 ''ROV'' \<lparr>tm_hour = 1, tm_min = 52, tm_sec = 0\<rparr> ''T'')
         ''127.0.0.1'' 5500],
      Some SerialException)"
  by (simp add: poll_cycle_def get_global_position_def get_data_def gen_tll_py_def dispatch_def
      send_udp_def ser_write_def both_sinks_def default_args_def env_of_def position_at_def)

text \<open>
  C6, amended: with both sinks configured, the UDP send comes first. When the serial
  write raises, the sentence has been sent over UDP and the exception ends the loop;
  when the UDP send raises, the serial write is not attempted and the exception ends the
  loop.
\<close>

theorem main_loop_sink_failure:
  assumes "requests_get env (position_url a) = Response 200 text (Some (JObj kvs))"
    and "map_of kvs ''lat'' = Some (JNum lat)" and "map_of kvs ''lon'' = Some (JNum lon)"
    and "ip a \<noteq> []" and "serial a \<noteq> []"
  shows "(\<not> sendto_raises env \<and> write_raises env \<longrightarrow>
           main_loop a (env # envs) =
             ([HttpGet (position_url a),
               Print (gen_tll lat lon ''ROV'' (gmtime env) ''T''),
               SendTo (gen_tll lat lon ''ROV'' (gmtime env) ''T'') (ip a) (port a)],
              Some SerialException))
       \<and> (sendto_raises env \<longrightarrow>
           main_loop a (env # envs) =
             ([HttpGet (position_url a),
               Print (gen_tll lat lon ''ROV'' (gmtime env) ''T'')],
              Some SocketError))"
  using assms(4,5)
  by (simp add: poll_cycle_position [OF assms(1-3)] dispatch_def send_udp_def ser_write_def)

theorem main_loop_sink_failure_witness:
  "main_loop both_sinks [env_of (position_at 56 19) False True, env_of (position_at 56 19) False False]
     = ([HttpGet ''http://demo.waterlinked.com/api/v1/position/global'',
         Print (gen_tll 56 19 ''ROV'' \<lparr>tm_hour = 1, tm_min = 52, tm_sec = 0\<rparr> ''T''),
         SendTo (gen_tll 56 19 ''ROV'' \<lparr>tm_hour = 1, tm_min = 52, tm_sec = 0\<rparr> ''T'')
           ''127.0.0.1'' 5500],
        Some SerialException)
   \<and> main_loop both_sinks [env_of (position_at 56 19) True False, env_of (position_at 56 19) False False]
     = ([HttpGet ''http://demo.waterlinked.com/api/v1/position/global'',
         Print (gen_tll 56 19 ''ROV'' \<lparr>tm_hour = 1, tm_min = 52, tm_sec = 0\<rparr> ''T'')],
        Some SocketError)"
  using
    main_loop_sink_failure [of "env_of (position_at 56 19) False True" both_sinks "[]"
      "[(''lat'', JNum 56), (''lon'', JNum 19)]" 56 19 "[env_of (position_at 56 19) False False]"]
    main_loop_sink_failure [of "env_of (position_at 56 19) True False" both_sinks "[]"
      "[(''lat'', JNum 56), (''lon'', JNum 19)]" 56 19 "[env_of (position_at 56 19) False False]"]
  by (simp add: both_sinks_def default_args_def env_of_def position_at_def)

text \<open>
  A serial port that cannot be opened ends \<open>main\<close> before the loop starts: nothing is
  sent.
\<close>

lemma main_serial_open_fails:
  assumes "serial a \<noteq> []"
  shows "snd (main a True envs) = Some SerialException
     \<and> (\<forall>m h p. SendTo m h p \<notin> set (fst (main a True envs)))"
  using assms by (simp add: main_def Let_def)


end
